theory Spec2Isabelle
  imports Main
begin

section \<open>JSON values and the Python operators applied to them\<close>

text \<open>
  A request body, a cached snapshot and a JSON response are values of \<open>json\<close>.
  \<open>JNull\<close> is Python's \<open>None\<close>: it is also what \<open>request.get_json()\<close> hands to the
  handler when the request carries no JSON document. \<open>JObj\<close> holds the parsed dict, one
  pair per key.
\<close>

datatype json =
    JNull
  | JBool bool
  | JNum int
  | JStr string
  | JArr "json list"
  | JObj "(string \<times> json) list"

text \<open>The exceptions that the handlers can meet.\<close>

datatype exn =
    TypeError
  | KeyError
  | JSONDecodeError
  | IntegrityError
  | DatabaseError
  | RedisError

text \<open>Truth value of a Python object, as \<open>not data\<close> tests it.\<close>

fun truthy :: "json \<Rightarrow> bool" where
  "truthy JNull = False"
| "truthy (JBool b) = b"
| "truthy (JNum n) = (n \<noteq> 0)"
| "truthy (JStr s) = (s \<noteq> [])"
| "truthy (JArr xs) = (xs \<noteq> [])"
| "truthy (JObj kvs) = (kvs \<noteq> [])"

fun starts_with :: "string \<Rightarrow> string \<Rightarrow> bool" where
  "starts_with [] s = True"
| "starts_with (c # p) [] = False"
| "starts_with (c # p) (d # s) = (c = d \<and> starts_with p s)"

fun is_substring :: "string \<Rightarrow> string \<Rightarrow> bool" where
  "is_substring p [] = (p = [])"
| "is_substring p (c # s) = (starts_with p (c # s) \<or> is_substring p s)"

text \<open>
  \<open>key in data\<close>: key membership for a dict, element membership for a list, substring
  test for a string; \<open>TypeError\<close> for an object that is not iterable.
\<close>

fun py_in :: "string \<Rightarrow> json \<Rightarrow> exn + bool" where
  "py_in k (JObj kvs) = Inr (k \<in> set (map fst kvs))"
| "py_in k (JArr xs) = Inr (JStr k \<in> set xs)"
| "py_in k (JStr s) = Inr (is_substring k s)"
| "py_in k JNull = Inl TypeError"
| "py_in k (JBool b) = Inl TypeError"
| "py_in k (JNum n) = Inl TypeError"

text \<open>
  \<open>data[key]\<close> with a string key: the value for a dict (\<open>KeyError\<close> when the key is
  missing), \<open>TypeError\<close> for every other object.
\<close>

fun py_getitem :: "json \<Rightarrow> string \<Rightarrow> exn + json" where
  "py_getitem (JObj kvs) k = (case map_of kvs k of None \<Rightarrow> Inl KeyError | Some v \<Rightarrow> Inr v)"
| "py_getitem JNull k = Inl TypeError"
| "py_getitem (JBool b) k = Inl TypeError"
| "py_getitem (JNum n) k = Inl TypeError"
| "py_getitem (JStr s) k = Inl TypeError"
| "py_getitem (JArr xs) k = Inl TypeError"

text \<open>Decimal text of a number, as \<open>str\<close> and an f-string produce it.\<close>

definition digit :: "nat \<Rightarrow> char" where
  "digit d = ''0123456789'' ! d"

function str_nat :: "nat \<Rightarrow> string" where
  "str_nat n = (if n < 10 then [digit n] else str_nat (n div 10) @ [digit (n mod 10)])"
  by pat_completeness auto
termination
  by (relation "measure (\<lambda>n. n)") auto

declare str_nat.simps [simp del]

text \<open>\<open>sep.join(xs)\<close>.\<close>

fun join :: "string \<Rightarrow> string list \<Rightarrow> string" where
  "join sep [] = []"
| "join sep [x] = x"
| "join sep (x # y # ys) = x @ sep @ join sep (y # ys)"

text \<open>The lines of a text: the pieces between newline characters.\<close>

fun text_lines :: "string \<Rightarrow> string list" where
  "text_lines [] = [[]]"
| "text_lines (c # s) =
     (if c = CHR 0x0A then [] # text_lines s
      else (case text_lines s of [] \<Rightarrow> [[c]] | l # ls \<Rightarrow> (c # l) # ls))"

section \<open>The relational store\<close>

text \<open>
  The \<open>users\<close> table as \<open>init_database\<close> declares it: \<open>id SERIAL PRIMARY KEY\<close>,
  \<open>name VARCHAR(100) NOT NULL\<close>, \<open>email VARCHAR(100) UNIQUE NOT NULL\<close>,
  \<open>created_at TIMESTAMP DEFAULT CURRENT_TIMESTAMP\<close>.
\<close>

record user_row =
  row_id :: nat
  row_name :: string
  row_email :: string
  row_created_at :: nat

datatype statement =
    SelectAllUsers
  | InsertUser json json
  | SelectUserById nat

datatype db_call = Connect | Execute statement | Commit | Close | Dealloc

text \<open>
  The backend is an external service; the record holds what the handlers can observe of it.
  \<^item> \<open>accepting\<close>: whether \<open>psycopg2.connect\<close> succeeds;
  \<^item> \<open>faulty\<close>: whether executing a statement raises an error of the backend that is no
    constraint violation;
  \<^item> \<open>coerce\<close>: the text that the driver and the backend store in a \<open>VARCHAR(100)\<close>
    column for a parameter that is not null, \<open>None\<close> when they reject it (too long, not
    adaptable);
  \<^item> \<open>users\<close>: the rows of the table, \<open>id_seq\<close>: the last value of the sequence behind
    \<open>id\<close>, \<open>current_timestamp\<close>: the backend's clock;
  \<^item> \<open>open_connections\<close>: the connections opened and not yet closed;
  \<^item> \<open>calls\<close>: every call made to the backend, oldest first; \<open>Dealloc\<close> is the
    disconnection made by the destructor of a connection object that is reclaimed while
    open.
\<close>

record store =
  accepting :: bool
  faulty :: bool
  coerce :: "json \<Rightarrow> string option"
  users :: "user_row list"
  id_seq :: nat
  current_timestamp :: nat
  open_connections :: nat
  calls :: "db_call list"

section \<open>The cache\<close>

text \<open>
  A value held by the cache is a text. \<open>Doc j\<close> is a text that \<open>json.loads\<close> parses to
  \<open>j\<close> (what \<open>json.dumps\<close> writes for \<open>j\<close>); \<open>Raw s\<close> is a text \<open>s\<close> that does not parse.
\<close>

datatype cached = Doc json | Raw string

fun cached_truthy :: "cached \<Rightarrow> bool" where
  "cached_truthy (Doc j) = True"
| "cached_truthy (Raw s) = (s \<noteq> [])"

fun json_loads :: "cached \<Rightarrow> exn + json" where
  "json_loads (Doc j) = Inr j"
| "json_loads (Raw s) = Inl JSONDecodeError"

text \<open>
  The cache service: \<open>reachable\<close> tells whether a call to it succeeds (otherwise it
  raises); an entry is a time-to-live in seconds and a value.
\<close>

record redis =
  reachable :: bool
  entries :: "string \<rightharpoonup> (nat \<times> cached)"

definition redis_ping :: "redis \<Rightarrow> exn + bool" where
  "redis_ping r = (if reachable r then Inr True else Inl RedisError)"

definition redis_get :: "redis \<Rightarrow> string \<Rightarrow> exn + cached option" where
  "redis_get r k = (if reachable r then Inr (map_option snd (entries r k)) else Inl RedisError)"

definition redis_setex :: "redis \<Rightarrow> string \<Rightarrow> nat \<Rightarrow> cached \<Rightarrow> exn + redis" where
  "redis_setex r k ttl v =
     (if reachable r then Inr (r\<lparr>entries := (entries r)(k \<mapsto> (ttl, v))\<rparr>) else Inl RedisError)"

section \<open>The process and its surroundings\<close>

text \<open>
  \<open>redis_client\<close> is the module's global: \<open>None\<close> when the ping at start-up failed.
  \<open>utcnow_iso\<close> is the text \<open>datetime.utcnow().isoformat()\<close> gives during the request,
  \<open>http_date\<close> the text the JSON encoder writes for a timestamp of the store.
\<close>

record world =
  db :: store
  redis_client :: "redis option"
  utcnow_iso :: string
  http_date :: "nat \<Rightarrow> string"

datatype content = Json json | Text string | InternalServerError

record response =
  status_code :: nat
  content :: content

definition jsonify :: "json \<Rightarrow> nat \<Rightarrow> response" where
  "jsonify j code = \<lparr>status_code = code, content = Json j\<rparr>"

definition error_json :: "string \<Rightarrow> json" where
  "error_json msg = JObj [(''error'', JStr msg)]"

section \<open>Store client\<close>

datatype connection = Connection

text \<open>
  \<open>get_db_connection\<close>: \<open>psycopg2.connect\<close> inside \<open>try\<close>; an exception is logged
  and \<open>None\<close> is returned.
\<close>

definition log_call :: "db_call \<Rightarrow> world \<Rightarrow> world" where
  "log_call c w = w\<lparr>db := (db w)\<lparr>calls := calls (db w) @ [c]\<rparr>\<rparr>"

definition get_db_connection :: "world \<Rightarrow> connection option \<times> world" where
  "get_db_connection w =
     (let w1 = log_call Connect w in
      if accepting (db w)
      then (Some Connection,
            w1\<lparr>db := (db w1)\<lparr>open_connections := Suc (open_connections (db w1))\<rparr>\<rparr>)
      else (None, w1))"

text \<open>\<open>conn.close()\<close>.\<close>

definition conn_close :: "world \<Rightarrow> world" where
  "conn_close w =
     (let w1 = log_call Close w in
      w1\<lparr>db := (db w1)\<lparr>open_connections := open_connections (db w1) - 1\<rparr>\<rparr>)"

text \<open>
  A connection object that nothing refers to any more is reclaimed at once, and the
  destructor of the driver closes an open connection.
\<close>

definition conn_dealloc :: "world \<Rightarrow> world" where
  "conn_dealloc w =
     (let w1 = log_call Dealloc w in
      w1\<lparr>db := (db w1)\<lparr>open_connections := open_connections (db w1) - 1\<rparr>\<rparr>)"

text \<open>\<open>conn.commit()\<close>. A statement takes effect when it is executed: between the
  \<open>INSERT\<close> and the commit no step of \<open>create_user\<close> can fail.\<close>

definition conn_commit :: "world \<Rightarrow> world" where
  "conn_commit w = log_call Commit w"

text \<open>\<open>SELECT * FROM users ORDER BY created_at DESC\<close> and \<open>fetchall\<close>.\<close>

definition select_all_users :: "world \<Rightarrow> (exn + user_row list) \<times> world" where
  "select_all_users w =
     (let w1 = log_call (Execute SelectAllUsers) w in
      if faulty (db w) then (Inl DatabaseError, w1)
      else (Inr (rev (sort_key row_created_at (users (db w)))), w1))"

text \<open>\<open>SELECT * FROM users WHERE id = %s\<close> and \<open>fetchone\<close>.\<close>

definition select_user_by_id :: "nat \<Rightarrow> world \<Rightarrow> (exn + user_row option) \<times> world" where
  "select_user_by_id uid w =
     (let w1 = log_call (Execute (SelectUserById uid)) w in
      if faulty (db w) then (Inl DatabaseError, w1)
      else (Inr (find (\<lambda>r. row_id r = uid) (users (db w))), w1))"

text \<open>
  The value a parameter puts into a \<open>VARCHAR(100)\<close> column: \<open>None\<close> inside is SQL's
  \<open>NULL\<close>.
\<close>

definition column_value :: "store \<Rightarrow> json \<Rightarrow> exn + string option" where
  "column_value s j =
     (if j = JNull then Inr None
      else (case coerce s j of None \<Rightarrow> Inl DatabaseError | Some t \<Rightarrow> Inr (Some t)))"

text \<open>
  \<open>INSERT INTO users (name, email) VALUES (%s, %s) RETURNING id\<close> and
  \<open>fetchone()[0]\<close>. The sequence advances when the backend builds the row, also when a
  constraint then rejects it. \<open>NOT NULL\<close>, the primary key and \<open>UNIQUE\<close> on \<open>email\<close> raise
  \<open>IntegrityError\<close>.
\<close>

definition insert_user :: "json \<Rightarrow> json \<Rightarrow> world \<Rightarrow> (exn + nat) \<times> world" where
  "insert_user name email w =
     (let w1 = log_call (Execute (InsertUser name email)) w; s = db w1 in
      if faulty s then (Inl DatabaseError, w1)
      else
        (case column_value s name of
          Inl e \<Rightarrow> (Inl e, w1)
        | Inr cn \<Rightarrow>
            (case column_value s email of
              Inl e \<Rightarrow> (Inl e, w1)
            | Inr ce \<Rightarrow>
                (let new_id = Suc (id_seq s); w2 = w1\<lparr>db := s\<lparr>id_seq := new_id\<rparr>\<rparr> in
                 (case (cn, ce) of
                   (Some n, Some e) \<Rightarrow>
                     if new_id \<in> set (map row_id (users s)) \<or> e \<in> set (map row_email (users s))
                     then (Inl IntegrityError, w2)
                     else (Inr new_id,
                           w2\<lparr>db := (db w2)\<lparr>users := users s @
                             [\<lparr>row_id = new_id, row_name = n, row_email = e,
                               row_created_at = current_timestamp s\<rparr>]\<rparr>\<rparr>)
                 | _ \<Rightarrow> (Inl IntegrityError, w2))))))"

text \<open>\<open>dict(user)\<close> of a row read through \<open>RealDictCursor\<close>, as the JSON encoder writes it.\<close>

definition row_json :: "world \<Rightarrow> user_row \<Rightarrow> json" where
  "row_json w r =
     JObj [(''id'', JNum (int (row_id r))), (''name'', JStr (row_name r)),
           (''email'', JStr (row_email r)),
           (''created_at'', JStr (http_date w (row_created_at r)))]"

section \<open>Request handlers\<close>

text \<open>A handler returns the response, or the exception that leaves it, and the new world.\<close>

type_synonym handler_result = "(exn + response) \<times> world"

text \<open>\<open>GET /\<close>\<close>

definition health_check :: "world \<Rightarrow> handler_result" where
  "health_check w =
     (Inr (jsonify (JObj [(''status'', JStr ''healthy''), (''timestamp'', JStr (utcnow_iso w)),
                          (''version'', JStr ''1.0.0'')]) 200), w)"

text \<open>
  \<open>GET /health\<close>. \<open>health_status['status']\<close> starts as \<open>healthy\<close>; each check that fails
  overwrites it with \<open>degraded\<close>.
\<close>

definition detailed_health :: "world \<Rightarrow> handler_result" where
  "detailed_health w =
     (let status0 = ''healthy'';
          (db_conn, w1) = get_db_connection w;
          (database, status1, w2) =
            (case db_conn of
              Some c \<Rightarrow> (''healthy'', status0, conn_close w1)
            | None \<Rightarrow> (''unhealthy'', ''degraded'', w1));
          (redis_state, status2) =
            (case redis_client w2 of
              Some r \<Rightarrow>
                (case redis_ping r of
                  Inr b \<Rightarrow> (''healthy'', status1)
                | Inl e \<Rightarrow> (''unhealthy'', ''degraded''))
            | None \<Rightarrow> (''unhealthy'', ''degraded''))
      in (Inr (jsonify (JObj [(''status'', JStr status2), (''timestamp'', JStr (utcnow_iso w)),
                              (''version'', JStr ''1.0.0''),
                              (''services'', JObj [(''database'', JStr database),
                                                   (''redis'', JStr redis_state)])]) 200), w2))"

text \<open>\<open>GET /users\<close>\<close>

definition get_users :: "world \<Rightarrow> handler_result" where
  "get_users w =
     (case get_db_connection w of
       (None, w1) \<Rightarrow> (Inr (jsonify (error_json ''Database connection failed'') 500), w1)
     | (Some conn, w1) \<Rightarrow>
         (case select_all_users w1 of
           (Inr rows, w2) \<Rightarrow> (Inr (jsonify (JArr (map (row_json w2) rows)) 200), conn_close w2)
         | (Inl e, w2) \<Rightarrow> (Inr (jsonify (error_json ''Failed to fetch users'') 500), conn_close w2)))"

text \<open>
  \<open>POST /users\<close>. The test \<open>not data or 'name' not in data or 'email' not in data\<close>,
  evaluated from left to right: \<open>Inr True\<close> when the request is refused, an exception
  when \<open>in\<close> raises.
\<close>

definition fields_missing :: "json \<Rightarrow> exn + bool" where
  "fields_missing data =
     (if \<not> truthy data then Inr True
      else (case py_in ''name'' data of
             Inl e \<Rightarrow> Inl e
           | Inr has_name \<Rightarrow>
               if \<not> has_name then Inr True
               else (case py_in ''email'' data of
                      Inl e \<Rightarrow> Inl e
                    | Inr has_email \<Rightarrow> Inr (\<not> has_email))))"

text \<open>The \<open>except\<close> clauses of \<open>create_user\<close>: \<open>psycopg2.IntegrityError\<close> first, then
  \<open>Exception\<close>.\<close>

definition create_user_except :: "exn \<Rightarrow> response" where
  "create_user_except e =
     (if e = IntegrityError then jsonify (error_json ''Email already exists'') 409
      else jsonify (error_json ''Failed to create user'') 500)"

definition user_key :: "nat \<Rightarrow> string" where
  "user_key user_id = ''user:'' @ str_nat user_id"

text \<open>The best-effort write to the cache after the commit: an exception of \<open>setex\<close> is
  logged and dropped.\<close>

definition cache_user :: "nat \<Rightarrow> json \<Rightarrow> json \<Rightarrow> world \<Rightarrow> world" where
  "cache_user user_id name email w =
     (case redis_client w of
       None \<Rightarrow> w
     | Some r \<Rightarrow>
         (let user_data = JObj [(''id'', JNum (int user_id)), (''name'', name), (''email'', email),
                                (''created_at'', JStr (utcnow_iso w))] in
          case redis_setex r (user_key user_id) 3600 (Doc user_data) of
            Inr r' \<Rightarrow> w\<lparr>redis_client := Some r'\<rparr>
          | Inl e \<Rightarrow> w))"

definition create_user :: "json \<Rightarrow> world \<Rightarrow> handler_result" where
  "create_user data w =
     (case fields_missing data of
       Inl e \<Rightarrow> (Inl e, w)
     | Inr True \<Rightarrow> (Inr (jsonify (error_json ''Name and email are required'') 400), w)
     | Inr False \<Rightarrow>
         (case get_db_connection w of
           (None, w1) \<Rightarrow> (Inr (jsonify (error_json ''Database connection failed'') 500), w1)
         | (Some conn, w1) \<Rightarrow>
             (case py_getitem data ''name'' of
               Inl e \<Rightarrow> (Inr (create_user_except e), conn_close w1)
             | Inr name \<Rightarrow>
                 (case py_getitem data ''email'' of
                   Inl e \<Rightarrow> (Inr (create_user_except e), conn_close w1)
                 | Inr email \<Rightarrow>
                     (case insert_user name email w1 of
                       (Inl e, w2) \<Rightarrow> (Inr (create_user_except e), conn_close w2)
                     | (Inr user_id, w2) \<Rightarrow>
                         (let w3 = conn_commit w2;
                              w4 = cache_user user_id name email w3
                          in (Inr (jsonify (JObj [(''id'', JNum (int user_id)), (''name'', name),
                                                  (''email'', email),
                                                  (''message'', JStr ''User created successfully'')])
                                     201),
                              conn_close w4)))))))"

text \<open>
  \<open>GET /users/<int:user_id>\<close>. The look-up in the cache: \<open>Some j\<close> when the client is
  there, \<open>get\<close> returns a text that is true and \<open>json.loads\<close> parses it; every exception
  inside the \<open>try\<close> is logged and dropped.
\<close>

definition cache_lookup :: "nat \<Rightarrow> world \<Rightarrow> json option" where
  "cache_lookup user_id w =
     (case redis_client w of
       None \<Rightarrow> None
     | Some r \<Rightarrow>
         (case redis_get r (user_key user_id) of
           Inl e \<Rightarrow> None
         | Inr None \<Rightarrow> None
         | Inr (Some cached_user) \<Rightarrow>
             if cached_truthy cached_user
             then (case json_loads cached_user of Inr j \<Rightarrow> Some j | Inl e \<Rightarrow> None)
             else None))"

definition get_user :: "nat \<Rightarrow> world \<Rightarrow> handler_result" where
  "get_user user_id w =
     (case cache_lookup user_id w of
       Some j \<Rightarrow> (Inr (jsonify j 200), w)
     | None \<Rightarrow>
         (case get_db_connection w of
           (None, w1) \<Rightarrow> (Inr (jsonify (error_json ''Database connection failed'') 500), w1)
         | (Some conn, w1) \<Rightarrow>
             (case select_user_by_id user_id w1 of
               (Inr (Some user), w2) \<Rightarrow> (Inr (jsonify (row_json w2 user) 200), conn_close w2)
             | (Inr None, w2) \<Rightarrow> (Inr (jsonify (error_json ''User not found'') 404), conn_close w2)
             | (Inl e, w2) \<Rightarrow>
                 (Inr (jsonify (error_json ''Failed to fetch user'') 500), conn_close w2))))"

text \<open>
  \<open>GET /metrics\<close>. The dict literal is evaluated in order: \<open>get_db_connection()\<close>, whose
  connection is only tested for truth and bound to no name, so that it is reclaimed right
  after the test and its destructor disconnects; then \<open>redis_client and redis_client.ping()\<close>,
  outside any \<open>try\<close>. Each value is written by the f-string \<open>{metric} {value}\<close>.
\<close>

definition metrics :: "world \<Rightarrow> handler_result" where
  "metrics w =
     (let (db_conn, w0) = get_db_connection w;
          database_connections_active = (if db_conn \<noteq> None then 1 else 0 :: nat);
          w1 = (case db_conn of Some c \<Rightarrow> conn_dealloc w0 | None \<Rightarrow> w0)
      in case (case redis_client w1 of
                 None \<Rightarrow> Inr False
               | Some r \<Rightarrow> redis_ping r) of
           Inl e \<Rightarrow> (Inl e, w1)
         | Inr alive \<Rightarrow>
             (let redis_connections_active = (if alive then 1 else 0 :: nat);
                  metrics_data =
                    [(''http_requests_total'', str_nat 1),
                     (''http_request_duration_seconds'', ''0.1''),
                     (''database_connections_active'', str_nat database_connections_active),
                     (''redis_connections_active'', str_nat redis_connections_active)];
                  prometheus_metrics = map (\<lambda>(metric, v). metric @ '' '' @ v) metrics_data
              in (Inr \<lparr>status_code = 200, content = Text (join [CHR 0x0A] prometheus_metrics)\<rparr>,
                  w1)))"

section \<open>The HTTP surface\<close>

datatype request =
    GetRoot
  | GetHealth
  | GetUsers
  | PostUsers json
  | GetUser nat
  | GetMetrics

definition route :: "request \<Rightarrow> world \<Rightarrow> handler_result" where
  "route req w =
     (case req of
       GetRoot \<Rightarrow> health_check w
     | GetHealth \<Rightarrow> detailed_health w
     | GetUsers \<Rightarrow> get_users w
     | PostUsers data \<Rightarrow> create_user data w
     | GetUser user_id \<Rightarrow> get_user user_id w
     | GetMetrics \<Rightarrow> metrics w)"

text \<open>An exception that leaves a handler is answered by the framework with status 500.\<close>

definition serve :: "request \<Rightarrow> world \<Rightarrow> response \<times> world" where
  "serve req w =
     (case route req w of
       (Inr resp, w') \<Rightarrow> (resp, w')
     | (Inl e, w') \<Rightarrow> (\<lparr>status_code = 500, content = InternalServerError\<rparr>, w'))"

section \<open>Observations on responses and worlds\<close>

text \<open>The value of a key in a JSON response whose document is an object.\<close>

definition body_field :: "response \<Rightarrow> string \<Rightarrow> json option" where
  "body_field resp k = (case content resp of Json (JObj kvs) \<Rightarrow> map_of kvs k | _ \<Rightarrow> None)"

text \<open>
  The two liveness checks of \<open>/health\<close>: the store's succeeds when \<open>get_db_connection\<close>
  returns a connection, the cache's when the client is there and its \<open>ping\<close> does not raise.
\<close>

definition store_check_ok :: "world \<Rightarrow> bool" where
  "store_check_ok w = (fst (get_db_connection w) \<noteq> None)"

definition cache_check_ok :: "world \<Rightarrow> bool" where
  "cache_check_ok w =
     (case redis_client w of
       None \<Rightarrow> False
     | Some r \<Rightarrow> (case redis_ping r of Inr b \<Rightarrow> True | Inl e \<Rightarrow> False))"

section \<open>Sample surroundings\<close>

text \<open>A backend that stores a text of at most 100 characters as it is and rejects every
  other parameter that is not null.\<close>

definition text_only :: "json \<Rightarrow> string option" where
  "text_only j = (case j of JStr s \<Rightarrow> if length s \<le> 100 then Some s else None | _ \<Rightarrow> None)"

definition fresh_store :: store where
  "fresh_store =
     \<lparr>accepting = True, faulty = False, coerce = text_only, users = [], id_seq = 0,
      current_timestamp = 0, open_connections = 0, calls = []\<rparr>"

definition fresh_cache :: redis where
  "fresh_cache = \<lparr>reachable = True, entries = Map.empty\<rparr>"

definition fresh_world :: world where
  "fresh_world =
     \<lparr>db = fresh_store, redis_client = Some fresh_cache, utcnow_iso = ''2024-01-01T00:00:00'',
      http_date = (\<lambda>t. ''Mon, 01 Jan 2024 00:00:00 GMT'')\<rparr>"

text \<open>The cache was reachable at start-up and is not any more: every call to it raises.\<close>

definition cache_down_world :: world where
  "cache_down_world = fresh_world\<lparr>redis_client := Some (fresh_cache\<lparr>reachable := False\<rparr>)\<rparr>"

text \<open>The cache was not reachable at start-up: there is no client.\<close>

definition no_cache_world :: world where
  "no_cache_world = fresh_world\<lparr>redis_client := None\<rparr>"

text \<open>The store refuses connections.\<close>

definition store_down_world :: world where
  "store_down_world = fresh_world\<lparr>db := fresh_store\<lparr>accepting := False\<rparr>\<rparr>"

section \<open>Sample requests and worlds\<close>

text \<open>A snapshot as \<open>create_user\<close> caches it.\<close>

definition jane :: json where
  "jane = JObj [(''id'', JNum 1), (''name'', JStr ''Jane Doe''),
                (''email'', JStr ''jane@example.com''),
                (''created_at'', JStr ''2024-01-01T00:00:00'')]"

text \<open>The store refuses connections while the cache holds the snapshot of user 1.\<close>

definition hit_world :: world where
  "hit_world = store_down_world
     \<lparr>redis_client := Some (fresh_cache\<lparr>entries := [user_key 1 \<mapsto> (3600, Doc jane)]\<rparr>)\<rparr>"

text \<open>The store holds user 1 and the cache is empty.\<close>

definition stored_world :: world where
  "stored_world = fresh_world\<lparr>db := fresh_store\<lparr>users :=
     [\<lparr>row_id = 1, row_name = ''Jane Doe'', row_email = ''jane@example.com'',
       row_created_at = 0\<rparr>], id_seq := 1\<rparr>\<rparr>"

text \<open>Request bodies for \<open>POST /users\<close>.\<close>

definition blank_user :: json where
  "blank_user = JObj [(''name'', JStr ''''), (''email'', JStr '''')]"

definition null_user :: json where
  "null_user = JObj [(''name'', JNull), (''email'', JNull)]"

definition jane_request :: json where
  "jane_request = JObj [(''name'', JStr ''Jane Doe''), (''email'', JStr ''jane@example.com'')]"

text \<open>A second request with the email of the first.\<close>

definition joe_request :: json where
  "joe_request = JObj [(''name'', JStr ''Joe''), (''email'', JStr ''jane@example.com'')]"

text \<open>No call to the cache raises: there is no client, or the service is reachable.\<close>

definition cache_answers :: "world \<Rightarrow> bool" where
  "cache_answers w = (case redis_client w of None \<Rightarrow> True | Some r \<Rightarrow> reachable r)"

lemmas world_defs =
  fresh_world_def fresh_store_def fresh_cache_def cache_down_world_def no_cache_world_def
  store_down_world_def text_only_def

section \<open>Health\<close>

text \<open>
  C6: \<open>GET /health\<close> always answers with status 200. The \<open>status\<close> of its document is
  \<open>degraded\<close> if and only if the liveness check of the store or that of the cache fails,
  and \<open>healthy\<close> exactly when both succeed.
\<close>

theorem detailed_health_status:
  "status_code (fst (serve GetHealth w)) = 200 \<and>
   (body_field (fst (serve GetHealth w)) ''status'' = Some (JStr ''degraded'')
      \<longleftrightarrow> \<not> store_check_ok w \<or> \<not> cache_check_ok w) \<and>
   (body_field (fst (serve GetHealth w)) ''status'' = Some (JStr ''healthy'')
      \<longleftrightarrow> store_check_ok w \<and> cache_check_ok w)"
  by (auto simp: serve_def route_def detailed_health_def store_check_ok_def cache_check_ok_def
      get_db_connection_def conn_close_def log_call_def Let_def jsonify_def body_field_def
      split: option.splits sum.splits prod.splits)

theorem detailed_health_status_witness:
  "status_code (fst (serve GetHealth cache_down_world)) = 200 \<and>
   body_field (fst (serve GetHealth cache_down_world)) ''status'' = Some (JStr ''degraded'') \<and>
   body_field (fst (serve GetHealth fresh_world)) ''status'' = Some (JStr ''healthy'') \<and>
   store_check_ok cache_down_world \<and> \<not> cache_check_ok cache_down_world \<and>
   store_check_ok fresh_world \<and> cache_check_ok fresh_world"
  using detailed_health_status [of cache_down_world] detailed_health_status [of fresh_world]
  by (simp add: world_defs store_check_ok_def cache_check_ok_def get_db_connection_def
      redis_ping_def Let_def)

section \<open>Auxiliary facts\<close>

lemma find_append_fresh:
  "\<forall>x \<in> set xs. \<not> P x \<Longrightarrow> P y \<Longrightarrow> find P (xs @ [y]) = Some y"
  by (induction xs) auto

lemma py_getitem_InrD:
  "py_getitem data k = Inr v \<Longrightarrow> \<exists>kvs. data = JObj kvs \<and> map_of kvs k = Some v"
  by (cases data) (simp_all split: option.splits)

lemma fields_present:
  assumes "py_getitem data ''name'' = Inr name" and "py_getitem data ''email'' = Inr email"
  shows "fields_missing data = Inr False"
proof -
  obtain kvs where d: "data = JObj kvs" and n: "map_of kvs ''name'' = Some name"
    using py_getitem_InrD [OF assms(1)] by blast
  have e: "map_of kvs ''email'' = Some email"
    using assms(2) d by (simp split: option.splits)
  have "kvs \<noteq> []" using n by auto
  moreover have "''name'' \<in> fst ` set kvs" and "''email'' \<in> fst ` set kvs"
    using n e by (auto dest: map_of_SomeD intro: rev_image_eqI)
  ultimately show ?thesis
    using d by (simp add: fields_missing_def)
qed

lemma fields_missing_FalseD:
  assumes "fields_missing data = Inr False"
  shows "truthy data"
  using assms by (auto simp: fields_missing_def split: if_splits)

lemma column_value_calls [simp]:
  "column_value (s\<lparr>calls := cs\<rparr>) j = column_value s j"
  by (simp add: column_value_def)

lemma column_value_cong:
  "coerce s' = coerce s \<Longrightarrow> column_value s' j = column_value s j"
  by (simp add: column_value_def)

lemma insert_user_InrD:
  assumes "insert_user name email w = (Inr user_id, w2)"
  shows "\<exists>n e.
           \<not> faulty (db w) \<and>
           column_value (db w) name = Inr (Some n) \<and> column_value (db w) email = Inr (Some e) \<and>
           user_id = Suc (id_seq (db w)) \<and>
           Suc (id_seq (db w)) \<notin> set (map row_id (users (db w))) \<and>
           e \<notin> set (map row_email (users (db w))) \<and>
           w2 = w\<lparr>db := (db w)\<lparr>id_seq := Suc (id_seq (db w)),
                   users := users (db w) @
                     [\<lparr>row_id = Suc (id_seq (db w)), row_name = n, row_email = e,
                       row_created_at = current_timestamp (db w)\<rparr>],
                   calls := calls (db w) @ [Execute (InsertUser name email)]\<rparr>\<rparr>"
  using assms
  by (auto simp: insert_user_def log_call_def Let_def
      split: option.splits sum.splits prod.splits if_splits)

lemma insert_user_InlD:
  assumes "insert_user name email w = (Inl e, w2)"
  shows "users (db w2) = users (db w) \<and> redis_client w2 = redis_client w \<and>
         open_connections (db w2) = open_connections (db w)"
  using assms
  by (auto simp: insert_user_def log_call_def Let_def
      split: option.splits sum.splits prod.splits if_splits)

text \<open>What a created user tells about the request and both worlds.\<close>

lemma create_user_created:
  assumes "serve (PostUsers data) w = (created, w')" and "status_code created = 201"
  shows "\<exists>name email n e.
           py_getitem data ''name'' = Inr name \<and> py_getitem data ''email'' = Inr email \<and>
           accepting (db w) \<and> \<not> faulty (db w) \<and>
           column_value (db w) name = Inr (Some n) \<and> column_value (db w) email = Inr (Some e) \<and>
           Suc (id_seq (db w)) \<notin> set (map row_id (users (db w))) \<and>
           e \<notin> set (map row_email (users (db w))) \<and>
           created = jsonify (JObj [(''id'', JNum (int (Suc (id_seq (db w))))), (''name'', name),
                        (''email'', email), (''message'', JStr ''User created successfully'')]) 201 \<and>
           accepting (db w') \<and> \<not> faulty (db w') \<and> coerce (db w') = coerce (db w) \<and>
           id_seq (db w') = Suc (id_seq (db w)) \<and>
           users (db w') = users (db w) @
             [\<lparr>row_id = Suc (id_seq (db w)), row_name = n, row_email = e,
               row_created_at = current_timestamp (db w)\<rparr>] \<and>
           http_date w' = http_date w \<and>
           redis_client w' =
             (case redis_client w of
               None \<Rightarrow> None
             | Some r \<Rightarrow>
                 if reachable r
                 then Some (r\<lparr>entries := (entries r)(user_key (Suc (id_seq (db w))) \<mapsto>
                        (3600, Doc (JObj [(''id'', JNum (int (Suc (id_seq (db w))))),
                                          (''name'', name), (''email'', email),
                                          (''created_at'', JStr (utcnow_iso w))])))\<rparr>)
                 else Some r)"
proof -
  from assms have r: "route (PostUsers data) w = (Inr created, w')"
    by (auto simp: serve_def split: prod.splits sum.splits)
  then have c: "create_user data w = (Inr created, w')"
    by (simp add: route_def)
  have fm: "fields_missing data = Inr False"
    using c assms(2)
    by (auto simp: create_user_def jsonify_def split: sum.splits bool.splits)
  have acc: "accepting (db w)"
    using c assms(2) fm
    by (auto simp: create_user_def get_db_connection_def Let_def jsonify_def split: if_splits)
  define w1 where "w1 = snd (get_db_connection w)"
  have g: "get_db_connection w = (Some Connection, w1)"
    using acc by (simp add: w1_def get_db_connection_def Let_def)
  obtain name where n: "py_getitem data ''name'' = Inr name"
    using c assms(2) fm g
    by (cases "py_getitem data ''name''")
      (auto simp: create_user_def create_user_except_def jsonify_def split: if_splits)
  obtain email where e: "py_getitem data ''email'' = Inr email"
    using c assms(2) fm g n
    by (cases "py_getitem data ''email''")
      (auto simp: create_user_def create_user_except_def jsonify_def split: if_splits)
  obtain res w2 where i: "insert_user name email w1 = (res, w2)"
    by (cases "insert_user name email w1")
  obtain user_id where u: "res = Inr user_id"
    using c assms(2) fm g n e i
    by (cases res) (auto simp: create_user_def create_user_except_def jsonify_def split: if_splits)
  have cr: "created = jsonify (JObj [(''id'', JNum (int user_id)), (''name'', name),
                (''email'', email), (''message'', JStr ''User created successfully'')]) 201"
    and w': "w' = conn_close (cache_user user_id name email (conn_commit w2))"
    using c fm g n e i u by (simp_all add: create_user_def Let_def)
  have w1: "w1 = w\<lparr>db := (db w)\<lparr>open_connections := Suc (open_connections (db w)),
                      calls := calls (db w) @ [Connect]\<rparr>\<rparr>"
    using acc by (simp add: w1_def get_db_connection_def log_call_def Let_def)
  from insert_user_InrD [OF i [unfolded u]] obtain n' e' where
    ins: "\<not> faulty (db w1)" "column_value (db w1) name = Inr (Some n')"
      "column_value (db w1) email = Inr (Some e')" "user_id = Suc (id_seq (db w1))"
      "Suc (id_seq (db w1)) \<notin> set (map row_id (users (db w1)))"
      "e' \<notin> set (map row_email (users (db w1)))"
      and w2: "w2 = w1\<lparr>db := (db w1)\<lparr>id_seq := Suc (id_seq (db w1)),
                   users := users (db w1) @
                     [\<lparr>row_id = Suc (id_seq (db w1)), row_name = n', row_email = e',
                       row_created_at = current_timestamp (db w1)\<rparr>],
                   calls := calls (db w1) @ [Execute (InsertUser name email)]\<rparr>\<rparr>"
    by blast
  have cv: "column_value (db w) name = Inr (Some n')" "column_value (db w) email = Inr (Some e')"
    using ins(2,3) column_value_cong [of "db w1" "db w"] by (simp_all add: w1)
  show ?thesis
    apply (rule exI [of _ name], rule exI [of _ email], rule exI [of _ n'], rule exI [of _ e'])
    using n e acc ins cv cr
    by (simp add: w' w2 w1 conn_close_def conn_commit_def cache_user_def log_call_def Let_def
        redis_setex_def split: option.splits)
qed

lemma column_value_text:
  "coerce s (JStr t) = Some t \<Longrightarrow> column_value s (JStr t) = Inr (Some t)"
  by (simp add: column_value_def)

section \<open>Reading a user\<close>

text \<open>
  C5: when the cache holds a JSON snapshot under the key \<open>user:<id>\<close>, the client is there
  and its \<open>get\<close> returns it, \<open>GET /users/<id>\<close> answers 200 with that document and leaves
  the whole world as it was: no call reaches the store, whatever its state.
\<close>

theorem get_user_cache_hit:
  assumes "redis_client w = Some r" and "reachable r"
    and "entries r (user_key user_id) = Some (ttl, Doc j)"
  shows "serve (GetUser user_id) w = (jsonify j 200, w)"
  using assms
  by (simp add: serve_def route_def get_user_def cache_lookup_def redis_get_def)

theorem get_user_cache_hit_witness:
  "serve (GetUser 1) hit_world = (jsonify jane 200, hit_world) \<and> \<not> accepting (db hit_world)"
  using get_user_cache_hit [of hit_world "fresh_cache\<lparr>entries := [user_key 1 \<mapsto> (3600, Doc jane)]\<rparr>" 1 3600 jane]
  by (simp add: hit_world_def world_defs)

text \<open>
  C7: when the look-up in the cache misses and the store returns the row, \<open>GET /users/<id>\<close>
  answers 200 with the row and the cache is left as it was.
\<close>

theorem get_user_store_read_keeps_cache:
  assumes "cache_lookup user_id w = None" and "accepting (db w)" and "\<not> faulty (db w)"
    and "find (\<lambda>r. row_id r = user_id) (users (db w)) = Some user"
  shows "fst (serve (GetUser user_id) w) = jsonify (row_json w user) 200 \<and>
         redis_client (snd (serve (GetUser user_id) w)) = redis_client w"
  using assms
  by (simp add: serve_def route_def get_user_def get_db_connection_def select_user_by_id_def
      conn_close_def log_call_def Let_def row_json_def)

theorem get_user_store_read_keeps_cache_witness:
  "cache_lookup 1 stored_world = None \<and>
   status_code (fst (serve (GetUser 1) stored_world)) = 200 \<and>
   body_field (fst (serve (GetUser 1) stored_world)) ''name'' = Some (JStr ''Jane Doe'') \<and>
   redis_client (snd (serve (GetUser 1) stored_world)) = Some fresh_cache"
  using get_user_store_read_keeps_cache [of 1 stored_world
      "\<lparr>row_id = 1, row_name = ''Jane Doe'', row_email = ''jane@example.com'', row_created_at = 0\<rparr>"]
  by (simp add: stored_world_def world_defs cache_lookup_def redis_get_def jsonify_def
      row_json_def body_field_def)

section \<open>Creating a user\<close>

text \<open>
  C10: the validation of \<open>POST /users\<close> looks at the presence of the keys \<open>name\<close> and
  \<open>email\<close> only. Whatever their values are, the request is not answered with 400, and when
  the store accepts the connection the \<open>INSERT\<close> is executed with these values.
\<close>

theorem validation_checks_presence_only:
  assumes "py_getitem data ''name'' = Inr name" and "py_getitem data ''email'' = Inr email"
  shows "fields_missing data = Inr False \<and>
         status_code (fst (serve (PostUsers data) w)) \<noteq> 400 \<and>
         (accepting (db w) \<longrightarrow>
            Execute (InsertUser name email) \<in> set (calls (db (snd (serve (PostUsers data) w)))))"
proof -
  obtain kvs where d: "data = JObj kvs"
    using assms(1) by (cases data) simp_all
  have n: "map_of kvs ''name'' = Some name" and e: "map_of kvs ''email'' = Some email"
    using assms d by (simp_all split: option.splits)
  have ne: "kvs \<noteq> []" using n by auto
  have inn: "''name'' \<in> fst ` set kvs" and ine: "''email'' \<in> fst ` set kvs"
    using n e by (auto dest: map_of_SomeD intro: rev_image_eqI)
  have fm: "fields_missing data = Inr False"
    using d ne inn ine by (simp add: fields_missing_def)
  show ?thesis
    using fm d n e
    by (auto simp: serve_def route_def create_user_def get_db_connection_def insert_user_def
        conn_close_def conn_commit_def cache_user_def log_call_def Let_def jsonify_def
        create_user_except_def
        split: option.splits sum.splits prod.splits if_splits)
qed

theorem validation_checks_presence_only_witness:
  "fields_missing blank_user = Inr False \<and> fields_missing null_user = Inr False \<and>
   status_code (fst (serve (PostUsers blank_user) fresh_world)) = 201 \<and>
   status_code (fst (serve (PostUsers null_user) fresh_world)) = 409 \<and>
   Execute (InsertUser (JStr '''') (JStr ''''))
     \<in> set (calls (db (snd (serve (PostUsers blank_user) fresh_world)))) \<and>
   Execute (InsertUser JNull JNull)
     \<in> set (calls (db (snd (serve (PostUsers null_user) fresh_world))))"
proof -
  have b: "py_getitem blank_user ''name'' = Inr (JStr '''')"
      "py_getitem blank_user ''email'' = Inr (JStr '''')"
    and n: "py_getitem null_user ''name'' = Inr JNull" "py_getitem null_user ''email'' = Inr JNull"
    by (simp_all add: blank_user_def null_user_def)
  have acc: "accepting (db fresh_world)"
    by (simp add: world_defs)
  have s1: "status_code (fst (serve (PostUsers blank_user) fresh_world)) = 201"
    by (simp add: serve_def route_def create_user_def fields_missing_def blank_user_def
        world_defs get_db_connection_def insert_user_def column_value_def log_call_def Let_def
        jsonify_def)
  have s2: "status_code (fst (serve (PostUsers null_user) fresh_world)) = 409"
    by (simp add: serve_def route_def create_user_def fields_missing_def null_user_def
        world_defs get_db_connection_def insert_user_def column_value_def log_call_def Let_def
        jsonify_def create_user_except_def)
  from validation_checks_presence_only [OF b, of fresh_world]
    validation_checks_presence_only [OF n, of fresh_world] acc s1 s2
  show ?thesis by simp
qed

text \<open>
  C8: when \<open>POST /users\<close> with a name and an email that the store keeps as they are answers
  201 with an id, \<open>GET /users/<id>\<close> on the resulting world answers 200 with this name and
  this email.
\<close>

theorem create_then_get_user:
  assumes name: "py_getitem data ''name'' = Inr (JStr name)"
    and email: "py_getitem data ''email'' = Inr (JStr email)"
    and valid: "coerce (db w) (JStr name) = Some name" "coerce (db w) (JStr email) = Some email"
    and created: "serve (PostUsers data) w = (created, w')" "status_code created = 201"
    and ident: "body_field created ''id'' = Some (JNum (int user_id))"
  shows "status_code (fst (serve (GetUser user_id) w')) = 200 \<and>
         body_field (fst (serve (GetUser user_id) w')) ''name'' = Some (JStr name) \<and>
         body_field (fst (serve (GetUser user_id) w')) ''email'' = Some (JStr email)"
proof -
  from create_user_created [OF created] obtain name' email' n e where
    f: "py_getitem data ''name'' = Inr name'" "py_getitem data ''email'' = Inr email'"
      "column_value (db w) name' = Inr (Some n)" "column_value (db w) email' = Inr (Some e)"
      "Suc (id_seq (db w)) \<notin> set (map row_id (users (db w)))"
    and cr: "created = jsonify (JObj [(''id'', JNum (int (Suc (id_seq (db w))))),
               (''name'', name'), (''email'', email'),
               (''message'', JStr ''User created successfully'')]) 201"
    and st: "accepting (db w')" "\<not> faulty (db w')"
    and us: "users (db w') = users (db w) @
               [\<lparr>row_id = Suc (id_seq (db w)), row_name = n, row_email = e,
                 row_created_at = current_timestamp (db w)\<rparr>]"
    and rc: "redis_client w' =
               (case redis_client w of
                 None \<Rightarrow> None
               | Some r \<Rightarrow>
                   if reachable r
                   then Some (r\<lparr>entries := (entries r)(user_key (Suc (id_seq (db w))) \<mapsto>
                          (3600, Doc (JObj [(''id'', JNum (int (Suc (id_seq (db w))))),
                                            (''name'', name'), (''email'', email'),
                                            (''created_at'', JStr (utcnow_iso w))])))\<rparr>)
                   else Some r)"
    by blast
  have eqs: "name' = JStr name" "email' = JStr email"
    using f(1,2) name email by simp_all
  have ne: "n = name" "e = email"
    using f(3,4) valid by (simp_all add: eqs column_value_text)
  have uid: "user_id = Suc (id_seq (db w))"
    using ident by (simp add: cr jsonify_def body_field_def)
  show ?thesis
  proof (cases "cache_lookup user_id w'")
    case (Some j)
    then have "j = JObj [(''id'', JNum (int (Suc (id_seq (db w))))), (''name'', name'),
                 (''email'', email'), (''created_at'', JStr (utcnow_iso w))]"
      using rc
      by (auto simp: cache_lookup_def redis_get_def uid
          split: option.splits if_splits sum.splits)
    with Some show ?thesis
      by (simp add: serve_def route_def get_user_def jsonify_def body_field_def eqs)
  next
    case None
    have fnd: "find (\<lambda>r. row_id r = user_id) (users (db w')) =
                 Some \<lparr>row_id = Suc (id_seq (db w)), row_name = n, row_email = e,
                       row_created_at = current_timestamp (db w)\<rparr>"
    proof -
      have "\<forall>x \<in> set (users (db w)). \<not> row_id x = user_id"
        using f(5) by (force simp: uid image_iff)
      then show ?thesis
        by (simp add: us uid find_append_fresh)
    qed
    show ?thesis
      using None st fnd
      by (simp add: serve_def route_def get_user_def get_db_connection_def
          select_user_by_id_def conn_close_def log_call_def Let_def row_json_def jsonify_def
          body_field_def ne)
  qed
qed

theorem create_then_get_user_witness:
  "status_code (fst (serve (PostUsers jane_request) fresh_world)) = 201 \<and>
   body_field (fst (serve (PostUsers jane_request) fresh_world)) ''id'' = Some (JNum 1) \<and>
   status_code (fst (serve (GetUser 1) (snd (serve (PostUsers jane_request) fresh_world)))) = 200 \<and>
   body_field (fst (serve (GetUser 1) (snd (serve (PostUsers jane_request) fresh_world)))) ''name''
     = Some (JStr ''Jane Doe'') \<and>
   body_field (fst (serve (GetUser 1) (snd (serve (PostUsers jane_request) fresh_world)))) ''email''
     = Some (JStr ''jane@example.com'')"
proof -
  have c: "serve (PostUsers jane_request) fresh_world =
             (fst (serve (PostUsers jane_request) fresh_world),
              snd (serve (PostUsers jane_request) fresh_world))"
    by simp
  have s: "fst (serve (PostUsers jane_request) fresh_world) =
             jsonify (JObj [(''id'', JNum 1), (''name'', JStr ''Jane Doe''),
                            (''email'', JStr ''jane@example.com''),
                            (''message'', JStr ''User created successfully'')]) 201"
    by (simp add: serve_def route_def create_user_def fields_missing_def jane_request_def
        world_defs get_db_connection_def insert_user_def column_value_def log_call_def Let_def)
  have h1: "py_getitem jane_request ''name'' = Inr (JStr ''Jane Doe'')"
    and h2: "py_getitem jane_request ''email'' = Inr (JStr ''jane@example.com'')"
    by (simp_all add: jane_request_def)
  have h3: "coerce (db fresh_world) (JStr ''Jane Doe'') = Some ''Jane Doe''"
    and h4: "coerce (db fresh_world) (JStr ''jane@example.com'') = Some ''jane@example.com''"
    by (simp_all add: world_defs)
  have h5: "status_code (fst (serve (PostUsers jane_request) fresh_world)) = 201"
    and h6: "body_field (fst (serve (PostUsers jane_request) fresh_world)) ''id'' =
               Some (JNum (int 1))"
    by (simp_all add: s jsonify_def body_field_def)
  from create_then_get_user [OF h1 h2 h3 h4 c h5 h6] h5 h6 show ?thesis
    by simp
qed

text \<open>
  C9: after a \<open>POST /users\<close> that answered 201, a second \<open>POST /users\<close> with the same
  email and a name that the store does not reject is answered with 409
  \<open>Email already exists\<close>.
\<close>

theorem duplicate_email_conflict:
  assumes created: "serve (PostUsers first) w = (created, w')" "status_code created = 201"
    and email1: "py_getitem first ''email'' = Inr email"
    and email2: "py_getitem second ''email'' = Inr email"
    and name2: "py_getitem second ''name'' = Inr name"
    and accepted: "column_value (db w) name = Inr cn"
  shows "fst (serve (PostUsers second) w') = jsonify (error_json ''Email already exists'') 409"
proof -
  from create_user_created [OF created] obtain email' e where
    f: "py_getitem first ''email'' = Inr email'" "column_value (db w) email' = Inr (Some e)"
    and st: "accepting (db w')" "\<not> faulty (db w')" "coerce (db w') = coerce (db w)"
    and us: "e \<in> set (map row_email (users (db w')))"
    by force
  have eq: "email' = email"
    using f(1) email1 by simp
  have fm: "fields_missing second = Inr False"
    using name2 email2 by (rule fields_present)
  define w1 where "w1 = snd (get_db_connection w')"
  have g: "get_db_connection w' = (Some Connection, w1)"
    using st(1) by (simp add: w1_def get_db_connection_def Let_def)
  have w1: "coerce (db w1) = coerce (db w)" "\<not> faulty (db w1)" "users (db w1) = users (db w')"
    using st by (simp_all add: w1_def get_db_connection_def log_call_def Let_def)
  have cv: "column_value (db w1) name = Inr cn" "column_value (db w1) email = Inr (Some e)"
    using accepted f(2) column_value_cong [OF w1(1)] by (simp_all add: eq)
  obtain w2 where i: "insert_user name email w1 = (Inl IntegrityError, w2)"
    using cv w1(2,3) us
    by (cases cn) (simp_all add: insert_user_def log_call_def Let_def)
  show ?thesis
    using fm g name2 email2 i
    by (simp add: serve_def route_def create_user_def create_user_except_def)
qed

theorem duplicate_email_conflict_witness:
  "status_code (fst (serve (PostUsers jane_request) fresh_world)) = 201 \<and>
   status_code (fst (serve (PostUsers joe_request)
      (snd (serve (PostUsers jane_request) fresh_world)))) = 409"
proof -
  have c: "serve (PostUsers jane_request) fresh_world =
             (fst (serve (PostUsers jane_request) fresh_world),
              snd (serve (PostUsers jane_request) fresh_world))"
    by simp
  have s: "status_code (fst (serve (PostUsers jane_request) fresh_world)) = 201"
    by (simp add: serve_def route_def create_user_def fields_missing_def jane_request_def
        world_defs get_db_connection_def insert_user_def column_value_def log_call_def Let_def
        jsonify_def)
  have h: "py_getitem jane_request ''email'' = Inr (JStr ''jane@example.com'')"
      "py_getitem joe_request ''email'' = Inr (JStr ''jane@example.com'')"
      "py_getitem joe_request ''name'' = Inr (JStr ''Joe'')"
    by (simp_all add: jane_request_def joe_request_def)
  have a: "column_value (db fresh_world) (JStr ''Joe'') = Inr (Some ''Joe'')"
    by (simp add: column_value_def world_defs)
  from duplicate_email_conflict [OF c s h a] s show ?thesis
    by (simp add: jsonify_def)
qed

text \<open>
  A body that is false (\<open>None\<close>, an empty object) or an object without \<open>name\<close> or without
  \<open>email\<close> is answered with 400 and the world, the store included, stays as it was.
\<close>

lemma create_user_refused:
  assumes "\<not> truthy data \<or>
           (\<exists>kvs. data = JObj kvs \<and> (''name'' \<notin> fst ` set kvs \<or> ''email'' \<notin> fst ` set kvs))"
  shows "serve (PostUsers data) w = (jsonify (error_json ''Name and email are required'') 400, w)"
proof -
  have "fields_missing data = Inr True"
    using assms by (auto simp: fields_missing_def)
  then show ?thesis
    by (simp add: serve_def route_def create_user_def)
qed

text \<open>
  C4: a body that is no object has no \<open>email\<close> field, yet \<open>POST /users\<close> does not answer it
  with 400: for the array \<open>["name", "email"]\<close> the membership test finds both strings, the
  subscript \<open>data['name']\<close> raises \<open>TypeError\<close> and the answer is 500; for the number \<open>5\<close>
  the test \<open>'name' not in data\<close> itself raises and the answer is 500.
\<close>

theorem create_user_non_object_body:
  "fst (serve (PostUsers (JArr [JStr ''name'', JStr ''email''])) fresh_world) =
     jsonify (error_json ''Failed to create user'') 500 \<and>
   fst (serve (PostUsers (JNum 5)) fresh_world) =
     \<lparr>status_code = 500, content = InternalServerError\<rparr>"
  by (simp add: serve_def route_def create_user_def fields_missing_def get_db_connection_def
      log_call_def create_user_except_def Let_def world_defs)

section \<open>Metrics\<close>

text \<open>
  While no call to the cache raises, \<open>GET /metrics\<close> answers 200 with a text of four lines
  that holds the four metric names.
\<close>

lemma metrics_report:
  assumes "cache_answers w"
  shows "\<exists>t. fst (serve GetMetrics w) = \<lparr>status_code = 200, content = Text t\<rparr> \<and>
           length (text_lines t) = 4 \<and>
           is_substring ''http_requests_total'' t \<and>
           is_substring ''http_request_duration_seconds'' t \<and>
           is_substring ''database_connections_active'' t \<and>
           is_substring ''redis_connections_active'' t"
  using assms
  by (cases "accepting (db w)"; cases "redis_client w")
    (simp_all add: cache_answers_def serve_def route_def metrics_def get_db_connection_def conn_dealloc_def
      log_call_def redis_ping_def Let_def str_nat.simps digit_def)

text \<open>
  C1: in \<open>metrics\<close> the call \<open>redis_client.ping()\<close> stands outside any \<open>try\<close>. With a client
  whose calls raise, the exception leaves the handler and the answer is 500, where a world
  without a client gets 200.
\<close>

theorem metrics_ping_failure_propagates:
  "fst (route GetMetrics cache_down_world) = Inl RedisError \<and>
   status_code (fst (serve GetMetrics cache_down_world)) = 500 \<and>
   status_code (fst (serve GetMetrics no_cache_world)) = 200"
  by (simp add: serve_def route_def metrics_def get_db_connection_def conn_dealloc_def log_call_def redis_ping_def
      Let_def world_defs)

text \<open>
  C3: with a client whose \<open>ping\<close> raises, the answer of \<open>GET /metrics\<close> is the framework's
  500, not a text of four lines with status 200.
\<close>

theorem metrics_cache_down_response:
  "fst (serve GetMetrics cache_down_world) =
     \<lparr>status_code = 500, content = InternalServerError\<rparr>"
  by (simp add: serve_def route_def metrics_def get_db_connection_def conn_dealloc_def log_call_def redis_ping_def
      Let_def world_defs)

section \<open>Store connections\<close>

text \<open>
  C2: whatever the request and the world, when the request is over as many store connections
  are open as before it: the connection that a handler opens is closed on every path, the
  one where an exception leaves the handler included. \<open>detailed_health\<close> closes it after
  the check, \<open>get_users\<close>, \<open>create_user\<close> and \<open>get_user\<close> close it in \<open>finally\<close>, and in
  \<open>metrics\<close>, which calls no \<open>close()\<close>, the destructor disconnects before the cache is
  pinged.
\<close>

theorem every_request_releases_connection:
  "open_connections (db (snd (serve req w))) = open_connections (db w)"
proof (cases req)
  case (PostUsers data)
  show ?thesis
    by (auto simp: PostUsers serve_def route_def create_user_def get_db_connection_def
        conn_close_def conn_commit_def cache_user_def log_call_def Let_def
        dest!: insert_user_InlD insert_user_InrD
        split: option.splits sum.splits prod.splits bool.splits)
next
  case (GetUser user_id)
  show ?thesis
    by (auto simp: GetUser serve_def route_def get_user_def get_db_connection_def
        select_user_by_id_def conn_close_def log_call_def Let_def
        split: option.splits sum.splits prod.splits)
next
  case GetMetrics
  show ?thesis
    by (auto simp: GetMetrics serve_def route_def metrics_def get_db_connection_def
        conn_dealloc_def log_call_def Let_def
        split: option.splits sum.splits prod.splits)
qed (auto simp: serve_def route_def health_check_def detailed_health_def
      get_users_def get_db_connection_def select_all_users_def conn_close_def log_call_def
      Let_def split: option.splits sum.splits prod.splits)

theorem every_request_releases_connection_witness:
  "open_connections (db (snd (serve GetMetrics fresh_world))) = 0 \<and>
   open_connections (db (snd (serve GetMetrics cache_down_world))) = 0 \<and>
   calls (db (snd (serve GetMetrics cache_down_world))) = [Connect, Dealloc] \<and>
   open_connections (db (snd (serve GetUsers fresh_world))) = 0"
  using every_request_releases_connection [of GetMetrics fresh_world]
    every_request_releases_connection [of GetMetrics cache_down_world]
    every_request_releases_connection [of GetUsers fresh_world]
  by (simp add: serve_def route_def metrics_def get_db_connection_def conn_dealloc_def
      log_call_def redis_ping_def Let_def world_defs)

section \<open>Cache failures and rows on the other paths\<close>

text \<open>The store client does not look at the cache client.\<close>

lemma get_db_connection_redis:
  "get_db_connection (w\<lparr>redis_client := rc\<rparr>) =
     (fst (get_db_connection w), (snd (get_db_connection w))\<lparr>redis_client := rc\<rparr>)"
  by (simp add: get_db_connection_def log_call_def Let_def)

lemma insert_user_redis:
  "insert_user n e (w\<lparr>redis_client := rc\<rparr>) =
     (fst (insert_user n e w), (snd (insert_user n e w))\<lparr>redis_client := rc\<rparr>)"
  by (simp add: insert_user_def log_call_def Let_def column_value_def
      split: option.splits sum.splits)

text \<open>The answer of \<open>create_user\<close> is the same whatever the cache client is: the write
  to the cache is best effort.\<close>

lemma create_user_response_redis:
  "fst (create_user data (w\<lparr>redis_client := rc\<rparr>)) = fst (create_user data w)"
  by (simp add: create_user_def get_db_connection_redis insert_user_redis Let_def
      split: sum.splits bool.splits option.splits prod.splits)

lemma row_json_redis [simp]: "row_json (w\<lparr>redis_client := rc\<rparr>) = row_json w"
  by (simp add: fun_eq_iff row_json_def)

lemma row_json_db [simp]: "row_json (w\<lparr>db := d\<rparr>) = row_json w"
  by (simp add: fun_eq_iff row_json_def)

text \<open>\<open>POST /users\<close> adds a row only when it answers 201.\<close>

lemma create_user_row_only_on_201:
  assumes "status_code (fst (serve (PostUsers data) w)) \<noteq> 201"
  shows "users (db (snd (serve (PostUsers data) w))) = users (db w)"
proof -
  have cl: "\<And>v. users (db (conn_close v)) = users (db v)"
    by (simp add: conn_close_def log_call_def Let_def)
  have g: "users (db (snd (get_db_connection w))) = users (db w)"
    by (simp add: get_db_connection_def log_call_def Let_def)
  show ?thesis
  proof (cases "fields_missing data = Inr False")
    case False
    then show ?thesis
      by (auto simp: serve_def route_def create_user_def split: sum.splits bool.splits)
  next
    case fm: True
    obtain c w1 where gc: "get_db_connection w = (c, w1)"
      by (cases "get_db_connection w")
    have u1: "users (db w1) = users (db w)"
      using g gc by simp
    show ?thesis
    proof (cases c)
      case None
      then show ?thesis
        using fm gc u1 by (simp add: serve_def route_def create_user_def)
    next
      case (Some conn)
      show ?thesis
      proof (cases "py_getitem data ''name''")
        case (Inl e)
        then show ?thesis
          using fm gc Some u1 cl by (simp add: serve_def route_def create_user_def)
      next
        case name: (Inr name)
        show ?thesis
        proof (cases "py_getitem data ''email''")
          case (Inl e)
          then show ?thesis
            using fm gc Some u1 cl name by (simp add: serve_def route_def create_user_def)
        next
          case email: (Inr email)
          obtain r w2 where i: "insert_user name email w1 = (r, w2)"
            by (cases "insert_user name email w1")
          show ?thesis
          proof (cases r)
            case (Inl e)
            with i insert_user_InlD [of name email w1 e w2] show ?thesis
              using fm gc Some u1 cl name email by (simp add: serve_def route_def create_user_def)
          next
            case (Inr user_id)
            with i have "status_code (fst (serve (PostUsers data) w)) = 201"
              using fm gc Some name email
              by (simp add: serve_def route_def create_user_def Let_def jsonify_def)
            with assms show ?thesis by simp
          qed
        qed
      qed
    qed
  qed
qed

text \<open>
  On every endpoint but \<open>/metrics\<close>, a client whose calls raise gives the answer that a
  process without client gives: the failure is a cache miss.
\<close>

lemma get_user_response_cache_down:
  assumes "\<not> reachable r"
  shows "fst (get_user user_id (w\<lparr>redis_client := Some r\<rparr>)) =
         fst (get_user user_id (w\<lparr>redis_client := None\<rparr>))"
  using assms
  by (simp add: get_user_def cache_lookup_def redis_get_def get_db_connection_redis
      select_user_by_id_def log_call_def Let_def row_json_def
      split: option.splits sum.splits prod.splits)

lemma fst_serve:
  "fst (serve req w) =
     (case fst (route req w) of
       Inr resp \<Rightarrow> resp
     | Inl e \<Rightarrow> \<lparr>status_code = 500, content = InternalServerError\<rparr>)"
  by (simp add: serve_def split: prod.splits sum.splits)

lemma cache_failure_is_miss:
  assumes "req \<noteq> GetMetrics" and "\<not> reachable r"
  shows "fst (serve req (w\<lparr>redis_client := Some r\<rparr>)) = fst (serve req (w\<lparr>redis_client := None\<rparr>))"
proof -
  have "fst (route req (w\<lparr>redis_client := Some r\<rparr>)) = fst (route req (w\<lparr>redis_client := None\<rparr>))"
  proof (cases req)
    case (PostUsers data)
    then show ?thesis
      by (simp add: route_def create_user_response_redis)
  next
    case (GetUser user_id)
    then show ?thesis
      using assms(2) by (simp add: route_def get_user_response_cache_down)
  next
    case GetHealth
    then show ?thesis
      using assms(2)
      by (simp add: route_def detailed_health_def redis_ping_def get_db_connection_def
          conn_close_def log_call_def Let_def split: option.splits)
  next
    case GetUsers
    then show ?thesis
      by (simp add: route_def get_users_def get_db_connection_redis select_all_users_def
          log_call_def Let_def row_json_def split: option.splits sum.splits prod.splits)
  qed (use assms(1) in \<open>simp_all add: route_def health_check_def\<close>)
  then show ?thesis
    by (simp add: fst_serve)
qed

end
